theory Spec2Isabelle
  imports Main
begin

section \<open>Data model\<close>

text \<open>
  A row is a Python \<open>List[str]\<close>, a table a \<open>List[List[str]]\<close> whose first row is the
  header. One \<open>char\<close> stands for one character of a Python \<open>str\<close>. Python's unbounded
  integers are \<open>int\<close>.
\<close>

type_synonym row = "string list"
type_synonym table = "row list"

section \<open>Python primitives used by the transformations\<close>

text \<open>
  \<open>xs[:n]\<close>: a negative stop counts from the end and is clipped at 0, a stop beyond the
  end is clipped at the length. A slice never raises.
\<close>

definition slice_to :: "'a list \<Rightarrow> int \<Rightarrow> 'a list" where
  "slice_to xs n =
     (if n < 0 then take (nat (int (length xs) + n)) xs else take (nat n) xs)"

text \<open>\<open>range(a, b)\<close>: the integers from \<open>a\<close> up to \<open>b - 1\<close>, empty when \<open>b \<le> a\<close>.\<close>

definition range_py :: "int \<Rightarrow> int \<Rightarrow> int list" where
  "range_py a b = [a..b - 1]"

text \<open>\<open>str(i)\<close> as an f-string field \<open>{i}\<close> prints it: decimal, a minus sign when negative.\<close>

definition digit_char :: "nat \<Rightarrow> char" where
  "digit_char d = ''0123456789'' ! d"

fun str_nat :: "nat \<Rightarrow> string" where
  "str_nat n = (if n < 10 then [digit_char n] else str_nat (n div 10) @ [digit_char (n mod 10)])"

declare str_nat.simps [simp del]

definition str_int :: "int \<Rightarrow> string" where
  "str_int i = (if i < 0 then CHR ''-'' # str_nat (nat (- i)) else str_nat (nat i))"

section \<open>Row limiter\<close>

text \<open>
  \<^verbatim>\<open>
  def limit_rows(rows, n):
      if not rows:
          return rows
      header, data = rows[0], rows[1:]
      limited = data[:n]
      return [header] + limited
  \<close>
\<close>

fun limit_rows :: "table \<Rightarrow> int \<Rightarrow> table" where
  "limit_rows [] n = []"
| "limit_rows (header # data) n = [header] @ slice_to data n"

section \<open>Column widener\<close>

text \<open>
  \<^verbatim>\<open>
  def add_sentiment_columns(rows, num_scores):
      if not rows:
          return rows
      header = rows[0]
      new_header = header.copy()
      for i in range(1, num_scores + 1):
          new_header.append(f"sentiment_{i}")
          new_header.append(f"sentiment_{i}_reason")
      augmented = [new_header]
      for row in rows[1:]:
          new_row = row.copy()
          for _ in range(num_scores):
              new_row.append("")
              new_row.append("")
          augmented.append(new_row)
      return augmented
  \<close>
  Each loop is a recursive function over the values it runs through, with the list it
  appends to as accumulator. First the loop \<open>for i in range(1, num_scores + 1)\<close>, which
  appends the two names of slot \<open>i\<close> to \<open>new_header\<close>.
\<close>

fun append_names :: "int list \<Rightarrow> row \<Rightarrow> row" where
  "append_names [] new_header = new_header"
| "append_names (i # ks) new_header =
     append_names ks
       ((new_header @ [''sentiment_'' @ str_int i]) @ [''sentiment_'' @ str_int i @ ''_reason''])"

text \<open>The loop \<open>for _ in range(num_scores)\<close> appending two empty cells to \<open>new_row\<close>.\<close>

fun append_blanks :: "int list \<Rightarrow> row \<Rightarrow> row" where
  "append_blanks [] new_row = new_row"
| "append_blanks (_ # ks) new_row = append_blanks ks ((new_row @ ['''']) @ [''''])"

text \<open>The loop \<open>for row in rows[1:]\<close> appending each widened copy to \<open>augmented\<close>.\<close>

fun augment_rows :: "table \<Rightarrow> int \<Rightarrow> table \<Rightarrow> table" where
  "augment_rows [] num_scores augmented = augmented"
| "augment_rows (row # rest) num_scores augmented =
     augment_rows rest num_scores (augmented @ [append_blanks (range_py 0 num_scores) row])"

fun add_sentiment_columns :: "table \<Rightarrow> int \<Rightarrow> table" where
  "add_sentiment_columns [] num_scores = []"
| "add_sentiment_columns (header # data) num_scores =
     augment_rows data num_scores [append_names (range_py 1 (num_scores + 1)) header]"

section \<open>CSV writer and reader of the Python library, default dialect\<close>

text \<open>
  \<open>csv.writer(f)\<close> and \<open>csv.reader(stream)\<close> are called without a dialect, so both use
  \<open>excel\<close>: delimiter \<open>,\<close>, quote character \<open>"\<close> doubled inside quoted fields, line
  terminator CR LF, minimal quoting, no escape character, not strict, initial spaces
  kept. The definitions follow the writer's \<open>join_append\<close> and the reader's state
  machine for these settings; the branches and states that only an escape character,
  another quoting mode or strict mode can reach are left out.
\<close>

datatype py_error = EOFError | URLError | OSError | CsvError string

definition delimiter :: char where "delimiter = CHR '',''"
definition quotechar :: char where "quotechar = CHR 0x22"
definition CR :: char where "CR = CHR 0x0D"
definition LF :: char where "LF = CHR 0x0A"

text \<open>
  One pass of the writer over the characters of a field: the characters to copy (a quote
  character is doubled) and whether the field has to be quoted.
\<close>

fun join_append_data :: "string \<Rightarrow> string \<times> bool" where
  "join_append_data [] = ([], False)"
| "join_append_data (c # cs) =
     (let (copied, quoted) = join_append_data cs in
      if c = delimiter \<or> c = quotechar \<or> c = CR \<or> c = LF
      then ((if c = quotechar then [quotechar, c] else [c]) @ copied, True)
      else (c # copied, quoted))"

text \<open>Appending one field to the record buffer; \<open>num_fields\<close> counts the fields before it.\<close>

definition join_append :: "string \<Rightarrow> nat \<Rightarrow> string \<Rightarrow> string" where
  "join_append rec num_fields field =
     (let (copied, quoted) = join_append_data field in
      (if num_fields > 0 then rec @ [delimiter] else rec)
        @ (if quoted then [quotechar] @ copied @ [quotechar] else copied))"

fun join_fields :: "row \<Rightarrow> string \<Rightarrow> nat \<Rightarrow> string" where
  "join_fields [] rec num_fields = rec"
| "join_fields (field # rest) rec num_fields =
     join_fields rest (join_append rec num_fields field) (Suc num_fields)"

text \<open>
  \<open>writer.writerow(row)\<close>: the text handed to the file. A record of one empty field
  would be an empty line, so it is written as a quoted empty field.
\<close>

definition writerow :: "row \<Rightarrow> string" where
  "writerow r =
     (let rec = join_fields r [] 0 in
      (if length r > 0 \<and> rec = [] then [quotechar, quotechar] else rec) @ [CR, LF])"

text \<open>
  \<^verbatim>\<open>
  def write_csv(rows, output_path):
      ensure_parent_dir(output_path)
      with output_path.open("w", newline="", encoding="utf-8") as f:
          writer = csv.writer(f)
          for row in rows:
              writer.writerow(row)
  \<close>
  The value is the text written to the file; with \<open>newline=""\<close> the file object does
  not translate line ends.
\<close>

fun write_rows :: "table \<Rightarrow> string \<Rightarrow> string" where
  "write_rows [] f = f"
| "write_rows (r # rest) f = write_rows rest (f @ writerow r)"

definition write_csv :: "table \<Rightarrow> string" where
  "write_csv tbl = write_rows tbl []"

text \<open>
  Iterating \<open>io.StringIO(text)\<close>: the lines of the text, each with its LF; a last line
  without LF is yielded when it is not empty. CR is not a line end here.
\<close>

fun io_lines :: "string \<Rightarrow> string \<Rightarrow> string list" where
  "io_lines cur [] = (if cur = [] then [] else [cur])"
| "io_lines cur (c # cs) =
     (if c = LF then (cur @ [c]) # io_lines [] cs else io_lines (cur @ [c]) cs)"

datatype parser_state =
  START_RECORD | START_FIELD | IN_FIELD | IN_QUOTED_FIELD | QUOTE_IN_QUOTED_FIELD | EAT_CRNL

record reader =
  state :: parser_state
  record_fields :: row
  field :: string

text \<open>\<open>csv.field_size_limit()\<close>, which the program never changes: 128 * 1024.\<close>

definition field_limit :: nat where
  "field_limit = 131072"

definition parse_reset :: reader where
  "parse_reset = \<lparr>state = START_RECORD, record_fields = [], field = []\<rparr>"

definition parse_save_field :: "reader \<Rightarrow> reader" where
  "parse_save_field rd = rd\<lparr>record_fields := record_fields rd @ [field rd], field := []\<rparr>"

definition parse_add_char :: "reader \<Rightarrow> char \<Rightarrow> py_error + reader" where
  "parse_add_char rd c =
     (if length (field rd) \<ge> field_limit
      then Inl (CsvError ''field larger than field limit (131072)'')
      else Inr (rd\<lparr>field := field rd @ [c]\<rparr>))"

text \<open>
  One step of the reader; \<open>None\<close> is the end-of-line marker fed after the last character
  of every line.
\<close>

definition start_field :: "reader \<Rightarrow> char option \<Rightarrow> py_error + reader" where
  "start_field rd c =
     (case c of
        None \<Rightarrow> Inr ((parse_save_field rd)\<lparr>state := START_RECORD\<rparr>)
      | Some ch \<Rightarrow>
          if ch = LF \<or> ch = CR then Inr ((parse_save_field rd)\<lparr>state := EAT_CRNL\<rparr>)
          else if ch = quotechar then Inr (rd\<lparr>state := IN_QUOTED_FIELD\<rparr>)
          else if ch = delimiter then Inr (parse_save_field rd)
          else map_sum id (\<lambda>r. r\<lparr>state := IN_FIELD\<rparr>) (parse_add_char rd ch))"

fun parse_process_char :: "reader \<Rightarrow> char option \<Rightarrow> py_error + reader" where
  "parse_process_char rd c =
     (case state rd of
        START_RECORD \<Rightarrow>
          (case c of
             None \<Rightarrow> Inr rd
           | Some ch \<Rightarrow>
               if ch = LF \<or> ch = CR then Inr (rd\<lparr>state := EAT_CRNL\<rparr>)
               else start_field (rd\<lparr>state := START_FIELD\<rparr>) c)
      | START_FIELD \<Rightarrow> start_field rd c
      | IN_FIELD \<Rightarrow>
          (case c of
             None \<Rightarrow> Inr ((parse_save_field rd)\<lparr>state := START_RECORD\<rparr>)
           | Some ch \<Rightarrow>
               if ch = LF \<or> ch = CR then Inr ((parse_save_field rd)\<lparr>state := EAT_CRNL\<rparr>)
               else if ch = delimiter then Inr ((parse_save_field rd)\<lparr>state := START_FIELD\<rparr>)
               else parse_add_char rd ch)
      | IN_QUOTED_FIELD \<Rightarrow>
          (case c of
             None \<Rightarrow> Inr rd
           | Some ch \<Rightarrow>
               if ch = quotechar then Inr (rd\<lparr>state := QUOTE_IN_QUOTED_FIELD\<rparr>)
               else parse_add_char rd ch)
      | QUOTE_IN_QUOTED_FIELD \<Rightarrow>
          (case c of
             None \<Rightarrow> Inr ((parse_save_field rd)\<lparr>state := START_RECORD\<rparr>)
           | Some ch \<Rightarrow>
               if ch = quotechar
               then map_sum id (\<lambda>r. r\<lparr>state := IN_QUOTED_FIELD\<rparr>) (parse_add_char rd ch)
               else if ch = delimiter then Inr ((parse_save_field rd)\<lparr>state := START_FIELD\<rparr>)
               else if ch = LF \<or> ch = CR then Inr ((parse_save_field rd)\<lparr>state := EAT_CRNL\<rparr>)
               else map_sum id (\<lambda>r. r\<lparr>state := IN_FIELD\<rparr>) (parse_add_char rd ch))
      | EAT_CRNL \<Rightarrow>
          (case c of
             None \<Rightarrow> Inr (rd\<lparr>state := START_RECORD\<rparr>)
           | Some ch \<Rightarrow>
               if ch = LF \<or> ch = CR then Inr rd
               else Inl (CsvError ''new-line character seen in unquoted field'')))"

text \<open>The characters of one line, in order.\<close>

fun process_chars :: "reader \<Rightarrow> string \<Rightarrow> py_error + reader" where
  "process_chars rd [] = Inr rd"
| "process_chars rd (c # cs) =
     (case parse_process_char rd (Some c) of
        Inl e \<Rightarrow> Inl e
      | Inr rd' \<Rightarrow> process_chars rd' cs)"

text \<open>One line: its characters, then the end-of-line marker.\<close>

definition process_line :: "reader \<Rightarrow> string \<Rightarrow> py_error + reader" where
  "process_line rd line =
     (case process_chars rd line of
        Inl e \<Rightarrow> Inl e
      | Inr rd' \<Rightarrow> parse_process_char rd' None)"

text \<open>
  \<open>rows = [row for row in reader]\<close>. Each request for a row resets the parser and feeds
  it lines until it is back in \<open>START_RECORD\<close>; \<open>tbl\<close> holds the rows yielded so far. When
  the lines run out inside a record, a pending field (or an open quoted field) is saved
  and the record is yielded; otherwise the iteration stops.
\<close>

fun read_rows :: "reader \<Rightarrow> table \<Rightarrow> string list \<Rightarrow> py_error + table" where
  "read_rows rd tbl [] =
     (if field rd \<noteq> [] \<or> state rd = IN_QUOTED_FIELD
      then Inr (tbl @ [record_fields (parse_save_field rd)])
      else Inr tbl)"
| "read_rows rd tbl (line # rest) =
     (case process_line rd line of
        Inl e \<Rightarrow> Inl e
      | Inr rd' \<Rightarrow>
          if state rd' \<noteq> START_RECORD then read_rows rd' tbl rest
          else read_rows parse_reset (tbl @ [record_fields rd']) rest)"

definition csv_reader :: "string \<Rightarrow> py_error + table" where
  "csv_reader text = read_rows parse_reset [] (io_lines [] text)"

text \<open>
  \<open>fetch_finviz_csv(finviz_url)\<close>. The request, the read of the body and its decoding as
  UTF-8 are the environment's: \<open>response\<close> is the decoded text, or the error that
  \<open>urlopen\<close> or \<open>read\<close> raised. The rest is the CSV reader over that text.
\<close>

definition fetch_finviz_csv :: "py_error + string \<Rightarrow> py_error + table" where
  "fetch_finviz_csv response =
     (case response of
        Inl e \<Rightarrow> Inl e
      | Inr text \<Rightarrow> csv_reader text)"

section \<open>Orchestrator\<close>

text \<open>
  The namespace that \<open>parse_args\<close> returns: \<open>--rows\<close> and \<open>--scores\<close> are \<open>None\<close> when the
  flag is absent, any integer (\<open>type=int\<close>) when it is given. The attribute
  \<open>args.output\<close> is the field \<open>output_path\<close> here, \<open>output\<close> being a reserved word.
\<close>

record args =
  rows :: "int option"
  scores :: "int option"
  finviz_url :: string
  output_path :: string

text \<open>
  The first loop of \<open>prompt_if_needed\<close>, run when \<open>args.rows is None\<close>:
  \<^verbatim>\<open>
  while True:
      try:
          rows_str = input("How many headlines should be included? ").strip()
          args.rows = int(rows_str)
          if args.rows <= 0:
              raise ValueError
          break
      except ValueError:
          print("Please enter a positive integer.")
  \<close>
  \<open>int_py s\<close> stands for \<open>int(s.strip())\<close>, \<open>None\<close> when it raises \<open>ValueError\<close>; it is a
  parameter. Standard input is the list of the lines still to be read, and \<open>input\<close> on
  an exhausted input raises \<open>EOFError\<close>, which the loop does not catch. Standard output
  is the list of the texts written so far, one element for each prompt and each
  \<open>print\<close>.
\<close>

fun prompt_rows ::
  "(string \<Rightarrow> int option) \<Rightarrow> string list \<Rightarrow> string list
     \<Rightarrow> (py_error + int) \<times> string list \<times> string list" where
  "prompt_rows int_py [] out =
     (Inl EOFError, [], out @ [''How many headlines should be included? ''])"
| "prompt_rows int_py (line # rest) out =
     (case int_py line of
        None \<Rightarrow>
          prompt_rows int_py rest
            (out @ [''How many headlines should be included? '', ''Please enter a positive integer.''])
      | Some v \<Rightarrow>
          if v \<le> 0
          then prompt_rows int_py rest
                 (out @ [''How many headlines should be included? '', ''Please enter a positive integer.''])
          else (Inr v, rest, out @ [''How many headlines should be included? '']))"

text \<open>The second loop, run when \<open>args.scores is None\<close>, accepts an integer from 1 to 5.\<close>

fun prompt_scores ::
  "(string \<Rightarrow> int option) \<Rightarrow> string list \<Rightarrow> string list
     \<Rightarrow> (py_error + int) \<times> string list \<times> string list" where
  "prompt_scores int_py [] out =
     (Inl EOFError, [], out @ [''How many different sentiment scores? (1 to 5) ''])"
| "prompt_scores int_py (line # rest) out =
     (case int_py line of
        None \<Rightarrow>
          prompt_scores int_py rest
            (out @ [''How many different sentiment scores? (1 to 5) '',
                    ''Please enter an integer from 1 to 5.''])
      | Some v \<Rightarrow>
          if \<not> (1 \<le> v \<and> v \<le> 5)
          then prompt_scores int_py rest
                 (out @ [''How many different sentiment scores? (1 to 5) '',
                         ''Please enter an integer from 1 to 5.''])
          else (Inr v, rest, out @ [''How many different sentiment scores? (1 to 5) '']))"

text \<open>
  \<open>prompt_if_needed(args)\<close>: the values of \<open>args.rows\<close> and \<open>args.scores\<close> after the call
  (or the uncaught error), with the remaining input and the output. A value given by
  its flag is passed on as it is.
\<close>

definition prompt_if_needed ::
  "(string \<Rightarrow> int option) \<Rightarrow> args \<Rightarrow> string list \<Rightarrow> string list
     \<Rightarrow> (py_error + int \<times> int) \<times> string list \<times> string list" where
  "prompt_if_needed int_py a inp out =
     (case (case rows a of
              None \<Rightarrow> prompt_rows int_py inp out
            | Some n \<Rightarrow> (Inr n, inp, out)) of
        (Inl e, inp1, out1) \<Rightarrow> (Inl e, inp1, out1)
      | (Inr n, inp1, out1) \<Rightarrow>
          (case (case scores a of
                   None \<Rightarrow> prompt_scores int_py inp1 out1
                 | Some k \<Rightarrow> (Inr k, inp1, out1)) of
             (Inl e, inp2, out2) \<Rightarrow> (Inl e, inp2, out2)
           | (Inr k, inp2, out2) \<Rightarrow> (Inr (n, k), inp2, out2)))"

text \<open>
  What one run meets outside the program: the lines on standard input, the outcome of
  the HTTP request (the decoded body, or the error raised), and the error, if any, with
  which creating the directory or opening the output file fails.
\<close>

record world =
  stdin :: "string list"
  response :: "py_error + string"
  fs_error :: "py_error option"

text \<open>
  How \<open>main\<close> ends, and the exit status of the process: 0 when \<open>main\<close> returns, the
  argument of \<open>sys.exit\<close>, 1 after an uncaught exception.
\<close>

datatype ending = Returned | SysExit int | Uncaught py_error

fun exit_status :: "ending \<Rightarrow> int" where
  "exit_status Returned = 0"
| "exit_status (SysExit k) = k"
| "exit_status (Uncaught e) = 1"

record outcome =
  stdout :: "string list"
  written :: "(string \<times> string) option"
  ending :: ending

text \<open>
  \<open>main()\<close> after \<open>parse_args\<close>. \<open>written\<close> is the path and text of the file that
  \<open>write_csv\<close> wrote, \<open>None\<close> when no file was written. \<open>try_open_file\<close> starts a viewer
  and swallows every exception, so it adds nothing to the outcome.
\<close>

definition main :: "(string \<Rightarrow> int option) \<Rightarrow> world \<Rightarrow> args \<Rightarrow> outcome" where
  "main int_py w a =
     (case prompt_if_needed int_py a (stdin w) [] of
        (Inl e, _, out) \<Rightarrow> \<lparr>stdout = out, written = None, ending = Uncaught e\<rparr>
      | (Inr (n, k), _, out) \<Rightarrow>
          (let out1 = out @ [''Downloading Finviz news CSV...''] in
           case fetch_finviz_csv (response w) of
             Inl e \<Rightarrow> \<lparr>stdout = out1, written = None, ending = Uncaught e\<rparr>
           | Inr tbl \<Rightarrow>
               if tbl = []
               then \<lparr>stdout = out1 @ [''No data returned from Finviz.''],
                     written = None, ending = SysExit 1\<rparr>
               else
                 (let out2 = out1 @ [''Trimming to top '' @ str_int n @ '' headline(s)...''];
                      rows_limited = limit_rows tbl n;
                      out3 = out2 @ [''Adding '' @ str_int k @ '' sentiment score column pairs...''];
                      rows_augmented = add_sentiment_columns rows_limited k;
                      out4 = out3 @ [''Writing CSV to '' @ output_path a @ '' ...'']
                  in case fs_error w of
                       Some e \<Rightarrow> \<lparr>stdout = out4, written = None, ending = Uncaught e\<rparr>
                     | None \<Rightarrow>
                         \<lparr>stdout = out4 @ [''Attempting to open the CSV locally (best-effort)...'',
                                           ''Done.'', ''Saved: '' @ output_path a],
                          written = Some (output_path a, write_csv rows_augmented),
                          ending = Returned\<rparr>)))"

section \<open>The transformations on a store of list objects\<close>

text \<open>
  Python lists are mutable objects reached through references, and a table is a list
  of references to its rows. To speak about what a call changes, the store is the list
  of all list objects, an address is an index into it, and an element of a list object
  is a string (immutable) or a reference. A new object gets the next free address.
  \<open>None\<close> is a run that typed code cannot make: a dangling reference, or a string where
  a list is required.
\<close>

datatype val = Str string | Ref nat

type_synonym store = "val list list"

definition alloc :: "store \<Rightarrow> val list \<Rightarrow> nat \<times> store" where
  "alloc h obj = (length h, h @ [obj])"

text \<open>\<open>xs.append(v)\<close>: the object at address \<open>a\<close> is changed in place.\<close>

definition append_at :: "store \<Rightarrow> nat \<Rightarrow> val \<Rightarrow> store" where
  "append_at h a v = h[a := h ! a @ [v]]"

fun limit_rows_st :: "store \<Rightarrow> nat \<Rightarrow> int \<Rightarrow> (nat \<times> store) option" where
  "limit_rows_st h tbl n =
     (if tbl \<ge> length h then None
      else case h ! tbl of
        [] \<Rightarrow> Some (tbl, h)
      | header # rest \<Rightarrow>
          (let (data, h1) = alloc h rest;
               (limited, h2) = alloc h1 (slice_to (h1 ! data) n);
               (single, h3) = alloc h2 [header]
           in Some (alloc h3 (h3 ! single @ h3 ! limited))))"

fun append_names_st :: "int list \<Rightarrow> nat \<Rightarrow> store \<Rightarrow> store" where
  "append_names_st [] new_header h = h"
| "append_names_st (i # ks) new_header h =
     append_names_st ks new_header
       (append_at (append_at h new_header (Str (''sentiment_'' @ str_int i)))
          new_header (Str (''sentiment_'' @ str_int i @ ''_reason'')))"

fun append_blanks_st :: "int list \<Rightarrow> nat \<Rightarrow> store \<Rightarrow> store" where
  "append_blanks_st [] new_row h = h"
| "append_blanks_st (_ # ks) new_row h =
     append_blanks_st ks new_row (append_at (append_at h new_row (Str [])) new_row (Str []))"

fun augment_rows_st :: "val list \<Rightarrow> int \<Rightarrow> nat \<Rightarrow> store \<Rightarrow> store option" where
  "augment_rows_st [] num_scores augmented h = Some h"
| "augment_rows_st (Str _ # rest) num_scores augmented h = None"
| "augment_rows_st (Ref r # rest) num_scores augmented h =
     (if r \<ge> length h then None
      else
        (let (new_row, h1) = alloc h (h ! r);
             h2 = append_blanks_st (range_py 0 num_scores) new_row h1
         in augment_rows_st rest num_scores augmented (append_at h2 augmented (Ref new_row))))"

fun add_sentiment_columns_st :: "store \<Rightarrow> nat \<Rightarrow> int \<Rightarrow> (nat \<times> store) option" where
  "add_sentiment_columns_st h tbl num_scores =
     (if tbl \<ge> length h then None
      else case h ! tbl of
        [] \<Rightarrow> Some (tbl, h)
      | Str _ # rest \<Rightarrow> None
      | Ref header # rest \<Rightarrow>
          if header \<ge> length h then None
          else
            (let (new_header, h1) = alloc h (h ! header);
                 h2 = append_names_st (range_py 1 (num_scores + 1)) new_header h1;
                 (augmented, h3) = alloc h2 [Ref new_header];
                 (data, h4) = alloc h3 rest
             in case augment_rows_st (h4 ! data) num_scores augmented h4 of
                  None \<Rightarrow> None
                | Some h5 \<Rightarrow> Some (augmented, h5)))"

text \<open>Reading a row and a table out of the store.\<close>

fun read_cell :: "val \<Rightarrow> string option" where
  "read_cell (Str s) = Some s"
| "read_cell (Ref _) = None"

definition read_row :: "store \<Rightarrow> val \<Rightarrow> row option" where
  "read_row h v =
     (case v of
        Str _ \<Rightarrow> None
      | Ref r \<Rightarrow> if r < length h then those (map read_cell (h ! r)) else None)"

definition read_table :: "store \<Rightarrow> nat \<Rightarrow> table option" where
  "read_table h tbl = (if tbl < length h then those (map (read_row h) (h ! tbl)) else None)"

section \<open>Cells that need no quoting\<close>




section \<open>Properties of the limiter and the widener\<close>

lemma append_names_eq:
  "append_names ks acc =
     acc @ concat (map (\<lambda>i. [''sentiment_'' @ str_int i, ''sentiment_'' @ str_int i @ ''_reason'']) ks)"
  by (induction ks arbitrary: acc) simp_all

lemma length_append_names: "length (append_names ks acc) = length acc + 2 * length ks"
  by (induction ks arbitrary: acc) simp_all

lemma append_blanks_eq: "append_blanks ks acc = acc @ replicate (2 * length ks) []"
  by (induction ks arbitrary: acc) (simp_all add: replicate_append_same)

lemma length_range_py: "length (range_py a b) = nat (b - a)"
  by (simp add: range_py_def)

lemma augment_rows_eq:
  "augment_rows rs s acc = acc @ map (\<lambda>r. r @ replicate (2 * nat s) []) rs"
  by (induction rs arbitrary: acc) (simp_all add: append_blanks_eq length_range_py)

lemma add_sentiment_columns_cons:
  "add_sentiment_columns (header # data) s =
     append_names (range_py 1 (s + 1)) header # map (\<lambda>r. r @ replicate (2 * nat s) []) data"
  by (simp add: augment_rows_eq)

lemma str_int_digits:
  "str_int 1 = ''1''" "str_int 2 = ''2''" "str_int 3 = ''3''" "str_int 4 = ''4''" "str_int 5 = ''5''"
  by (simp_all add: str_int_def str_nat.simps digit_char_def)

lemma range_py_upto5:
  "range_py 1 2 = [1]" "range_py 1 3 = [1, 2]" "range_py 1 4 = [1, 2, 3]"
  "range_py 1 5 = [1, 2, 3, 4]" "range_py 1 6 = [1, 2, 3, 4, 5]"
  by (simp_all add: range_py_def upto.simps)

lemma slot_names:
  assumes "1 \<le> s" and "s \<le> 5"
  shows "append_names (range_py 1 (s + 1)) header =
           header @ take (2 * nat s)
              [''sentiment_1'', ''sentiment_1_reason'', ''sentiment_2'', ''sentiment_2_reason'',
               ''sentiment_3'', ''sentiment_3_reason'', ''sentiment_4'', ''sentiment_4_reason'',
               ''sentiment_5'', ''sentiment_5_reason'']"
proof -
  from assms have "s = 1 \<or> s = 2 \<or> s = 3 \<or> s = 4 \<or> s = 5" by arith
  then show ?thesis
    by (elim disjE) (simp_all add: append_names_eq range_py_upto5 str_int_digits)
qed

lemma slice_to_map: "slice_to (map f xs) n = map f (slice_to xs n)"
  by (simp add: slice_to_def take_map)

text \<open>
  C1. For a table with a header and \<open>scores\<close> from 1 to 5, the widened header is the old
  header followed by the first \<open>2 * scores\<close> of the names \<open>sentiment_1\<close>,
  \<open>sentiment_1_reason\<close>, ..., in that order, and every data row is the old row followed
  by \<open>2 * scores\<close> empty strings. So the header and every row grow by \<open>2 * scores\<close>, and the
  old cells stay where they were.
\<close>

theorem add_sentiment_columns_widens:
  assumes "1 \<le> num_scores" and "num_scores \<le> 5"
  shows "add_sentiment_columns (header # data) num_scores =
           (header @ take (2 * nat num_scores)
              [''sentiment_1'', ''sentiment_1_reason'', ''sentiment_2'', ''sentiment_2_reason'',
               ''sentiment_3'', ''sentiment_3_reason'', ''sentiment_4'', ''sentiment_4_reason'',
               ''sentiment_5'', ''sentiment_5_reason''])
           # map (\<lambda>r. r @ replicate (2 * nat num_scores) []) data
         \<and> int (length (hd (add_sentiment_columns (header # data) num_scores)))
             = int (length header) + 2 * num_scores
         \<and> length (add_sentiment_columns (header # data) num_scores) = Suc (length data)
         \<and> (\<forall>i < length data.
               int (length (add_sentiment_columns (header # data) num_scores ! Suc i))
                 = int (length (data ! i)) + 2 * num_scores
               \<and> take (length (data ! i)) (add_sentiment_columns (header # data) num_scores ! Suc i)
                 = data ! i)
         \<and> take (length header) (hd (add_sentiment_columns (header # data) num_scores)) = header"
proof -
  have eq: "add_sentiment_columns (header # data) num_scores =
           (header @ take (2 * nat num_scores)
              [''sentiment_1'', ''sentiment_1_reason'', ''sentiment_2'', ''sentiment_2_reason'',
               ''sentiment_3'', ''sentiment_3_reason'', ''sentiment_4'', ''sentiment_4_reason'',
               ''sentiment_5'', ''sentiment_5_reason''])
           # map (\<lambda>r. r @ replicate (2 * nat num_scores) []) data"
    using assms by (simp only: add_sentiment_columns_cons slot_names)
  have len: "2 * nat num_scores \<le> 10" using assms by arith
  show ?thesis
    unfolding eq using assms len by simp
qed

theorem add_sentiment_columns_widens_witness:
  "(1::int) \<le> 2 \<and> (2::int) \<le> 5 \<and>
   add_sentiment_columns [[''Date'', ''Headline''], [''2024-01-01'', ''Stocks rise'']] 2 =
     [[''Date'', ''Headline'', ''sentiment_1'', ''sentiment_1_reason'', ''sentiment_2'',
       ''sentiment_2_reason''],
      [''2024-01-01'', ''Stocks rise'', [], [], [], []]]"
  using add_sentiment_columns_widens
          [of 2 "[''Date'', ''Headline'']" "[[''2024-01-01'', ''Stocks rise'']]"]
  by (simp add: numeral_eq_Suc)

text \<open>
  C2. For \<open>n \<ge> 0\<close> the limited table is the header followed by the first
  \<open>min n (number of data rows)\<close> data rows, in their order; the empty table stays empty.
\<close>

theorem limit_rows_keeps_first_rows:
  assumes "0 \<le> n"
  shows "limit_rows (header # data) n = header # take (min (nat n) (length data)) data
         \<and> hd (limit_rows (header # data) n) = header
         \<and> length (tl (limit_rows (header # data) n)) = min (nat n) (length data)
         \<and> limit_rows [] n = []"
  using assms by (simp add: slice_to_def min_def)

theorem limit_rows_keeps_first_rows_witness:
  "(0::int) \<le> 3 \<and>
   limit_rows [[''h''], [''r1''], [''r2''], [''r3''], [''r4'']] 3 = [[''h''], [''r1''], [''r2''], [''r3'']]"
  using limit_rows_keeps_first_rows [of 3 "[''h'']" "[[''r1''], [''r2''], [''r3''], [''r4'']]"]
  by (simp add: numeral_eq_Suc)

text \<open>
  C4. Widening twice with the same \<open>scores \<ge> 1\<close> appends the slot columns twice: the
  header is \<open>4 * scores\<close> longer than the original one, and the result differs from
  widening once.
\<close>

theorem widening_twice_appends_again:
  assumes "1 \<le> num_scores"
  shows "int (length (hd (add_sentiment_columns (add_sentiment_columns (header # data) num_scores) num_scores)))
           = int (length header) + 4 * num_scores
         \<and> add_sentiment_columns (add_sentiment_columns (header # data) num_scores) num_scores
             \<noteq> add_sentiment_columns (header # data) num_scores"
proof -
  let ?once = "add_sentiment_columns (header # data) num_scores"
  let ?twice = "add_sentiment_columns ?once num_scores"
  have l1: "length (hd ?once) = length header + 2 * nat num_scores"
    by (simp add: augment_rows_eq length_append_names length_range_py)
  have l2: "length (hd ?twice) = length header + 4 * nat num_scores"
    by (simp add: augment_rows_eq length_append_names length_range_py)
  from l1 l2 assms have "length (hd ?twice) \<noteq> length (hd ?once)" by simp
  then have "?twice \<noteq> ?once" by metis
  with l2 assms show ?thesis by simp
qed

theorem widening_twice_appends_again_witness:
  "(1::int) \<le> 1 \<and>
   hd (add_sentiment_columns (add_sentiment_columns [[''h''], [''r'']] 1) 1) =
     [''h'', ''sentiment_1'', ''sentiment_1_reason'', ''sentiment_1'', ''sentiment_1_reason'']"
proof -
  have "int (length (hd (add_sentiment_columns (add_sentiment_columns [[''h''], [''r'']] 1) 1)))
          = int (length [''h'']) + 4 * 1"
    using widening_twice_appends_again [of 1 "[''h'']" "[[''r'']]"] by simp
  then show ?thesis
    by (simp add: add_sentiment_columns_cons append_names_eq range_py_upto5 str_int_digits)
qed

text \<open>
  C6. Limiting a table that has a header to 0 rows gives the header alone; the call
  returns a table, it does not fail.
\<close>

theorem limit_rows_zero:
  "limit_rows (header # data) 0 = [header]"
  by (simp add: slice_to_def)

text \<open>
  C7. On the empty table both transformations return the empty table, whatever the
  integer argument.
\<close>

theorem empty_table_unchanged:
  "add_sentiment_columns [] num_scores = [] \<and> limit_rows [] n = []"
  by simp

text \<open>
  C9. Limiting and widening commute, for every table, every row count and every
  number of scores (so in particular for \<open>n \<ge> 0\<close> and \<open>scores\<close> from 1 to 5).
\<close>

theorem limit_widen_commute:
  "add_sentiment_columns (limit_rows T n) num_scores = limit_rows (add_sentiment_columns T num_scores) n"
  by (cases T) (simp_all add: augment_rows_eq slice_to_map)

section \<open>The CSV writer and reader on tables that need no quoting\<close>




























section \<open>Properties of the orchestrator\<close>

lemma prompt_if_needed_flags:
  "rows a = Some n \<Longrightarrow> scores a = Some k \<Longrightarrow>
     prompt_if_needed int_py a inp out = (Inr (n, k), inp, out)"
  by (simp add: prompt_if_needed_def)

lemma prompt_rows_positive:
  "prompt_rows int_py inp out = (Inr v, inp', out') \<Longrightarrow> 0 < v"
  by (induction inp arbitrary: out) (auto split: option.splits if_splits)

lemma prompt_if_needed_no_flag:
  assumes "rows a = None" and "prompt_if_needed int_py a inp out = (Inr (n', k), inp', out')"
  shows "0 < n'"
proof -
  from assms obtain inp1 out1 where "prompt_rows int_py inp out = (Inr n', inp1, out1)"
    by (auto simp add: prompt_if_needed_def split: option.splits prod.splits sum.splits)
  then show ?thesis by (rule prompt_rows_positive)
qed

lemma prompt_if_needed_rows_flag:
  assumes "rows a = Some n" and "prompt_if_needed int_py a inp out = (Inr (n', k), inp', out')"
  shows "n' = n"
  using assms
  by (auto simp add: prompt_if_needed_def split: option.splits prod.splits sum.splits)

text \<open>
  C5. Once the arguments are settled: when the fetch returns the empty table, the run
  prints the no-data message, writes no file and ends through \<open>sys.exit(1)\<close>, exit status
  1; when the fetch returns rows and the file can be written, \<open>main\<close> returns, the exit
  status is 0, and the file holds the limited and widened table.
\<close>

theorem main_exit_status:
  assumes "prompt_if_needed int_py a (stdin w) [] = (Inr (n, k), inp, out)"
    and "fetch_finviz_csv (response w) = Inr tbl"
  shows "(tbl = [] \<longrightarrow>
            main int_py w a =
              \<lparr>stdout = out @ [''Downloading Finviz news CSV...'', ''No data returned from Finviz.''],
               written = None, ending = SysExit 1\<rparr>
            \<and> exit_status (ending (main int_py w a)) = 1)
       \<and> (tbl \<noteq> [] \<and> fs_error w = None \<longrightarrow>
            ending (main int_py w a) = Returned
            \<and> exit_status (ending (main int_py w a)) = 0
            \<and> written (main int_py w a) =
                Some (output_path a, write_csv (add_sentiment_columns (limit_rows tbl n) k)))"
  using assms by (simp add: main_def Let_def)

lemma fetch_empty_body: "fetch_finviz_csv (Inr []) = Inr []"
  by (simp add: fetch_finviz_csv_def csv_reader_def parse_reset_def)

lemma fetch_one_cell: "fetch_finviz_csv (Inr ''x'') = Inr [[''x'']]"
  by (simp add: fetch_finviz_csv_def csv_reader_def parse_reset_def process_line_def
      start_field_def parse_add_char_def parse_save_field_def field_limit_def
      LF_def CR_def delimiter_def quotechar_def)

theorem main_exit_status_witness:
  "exit_status (ending (main (\<lambda>s. None) \<lparr>stdin = [], response = Inr [], fs_error = None\<rparr>
       \<lparr>rows = Some 3, scores = Some 2, finviz_url = ''u'', output_path = ''out.csv''\<rparr>)) = 1
   \<and> written (main (\<lambda>s. None) \<lparr>stdin = [], response = Inr [], fs_error = None\<rparr>
       \<lparr>rows = Some 3, scores = Some 2, finviz_url = ''u'', output_path = ''out.csv''\<rparr>) = None
   \<and> exit_status (ending (main (\<lambda>s. None) \<lparr>stdin = [], response = Inr ''x'', fs_error = None\<rparr>
       \<lparr>rows = Some 3, scores = Some 2, finviz_url = ''u'', output_path = ''out.csv''\<rparr>)) = 0
   \<and> written (main (\<lambda>s. None) \<lparr>stdin = [], response = Inr ''x'', fs_error = None\<rparr>
       \<lparr>rows = Some 3, scores = Some 2, finviz_url = ''u'', output_path = ''out.csv''\<rparr>)
       = Some (''out.csv'', write_csv [[''x'', ''sentiment_1'', ''sentiment_1_reason'',
                                        ''sentiment_2'', ''sentiment_2_reason'']])"
proof -
  let ?a = "\<lparr>rows = Some 3, scores = Some 2, finviz_url = ''u'', output_path = ''out.csv''\<rparr>"
  let ?w0 = "\<lparr>stdin = [], response = Inr [], fs_error = None\<rparr>"
  let ?w1 = "\<lparr>stdin = [], response = Inr ''x'', fs_error = None\<rparr>"
  have p0: "prompt_if_needed (\<lambda>s. None) ?a (stdin ?w0) [] = (Inr (3, 2), [], [])"
    by (simp add: prompt_if_needed_def)
  have p1: "prompt_if_needed (\<lambda>s. None) ?a (stdin ?w1) [] = (Inr (3, 2), [], [])"
    by (simp add: prompt_if_needed_def)
  have f0: "fetch_finviz_csv (response ?w0) = Inr []" by (simp add: fetch_empty_body)
  have f1: "fetch_finviz_csv (response ?w1) = Inr [[''x'']]" by (simp add: fetch_one_cell)
  have w: "add_sentiment_columns (limit_rows [[''x'']] 3) 2 =
             [[''x'', ''sentiment_1'', ''sentiment_1_reason'', ''sentiment_2'', ''sentiment_2_reason'']]"
    by (simp add: slice_to_def range_py_def upto.simps str_int_def str_nat.simps digit_char_def)
  from main_exit_status [OF p0 f0] main_exit_status [OF p1 f1] w show ?thesis by simp
qed

lemma fetch_three_lines:
  "fetch_finviz_csv (Inr [CHR ''h'', LF, CHR ''a'', LF, CHR ''b''])
     = Inr [[''h''], [''a''], [''b'']]"
  by (simp add: fetch_finviz_csv_def csv_reader_def parse_reset_def process_line_def
      start_field_def parse_add_char_def parse_save_field_def field_limit_def
      LF_def CR_def delimiter_def quotechar_def)

text \<open>
  C8. For \<open>n < 0\<close> the limiter keeps the header and all data rows but the last \<open>|n|\<close> (none
  when there are fewer). A row count given by its flag comes out of \<open>prompt_if_needed\<close>
  as it went in, while a prompted one is positive; so with both flags given, a negative
  \<open>--rows\<close> reaches the limiter and the file is written from the rows it keeps.
\<close>

theorem negative_rows_flag:
  assumes "n < 0"
  shows "limit_rows (header # data) n = header # take (length data - nat (- n)) data
       \<and> (rows a = Some n \<and> prompt_if_needed int_py a inp out = (Inr (n', k'), inp', out')
            \<longrightarrow> n' = n)
       \<and> (rows a = Some n \<and> scores a = Some k \<longrightarrow>
            prompt_if_needed int_py a inp out = (Inr (n, k), inp, out))
       \<and> (rows b = None \<and> prompt_if_needed int_py b inp out = (Inr (n', k'), inp', out')
            \<longrightarrow> 0 < n')
       \<and> (rows a = Some n \<and> scores a = Some k
            \<and> fetch_finviz_csv (response w) = Inr (header # data) \<and> fs_error w = None \<longrightarrow>
            written (main int_py w a) =
              Some (output_path a,
                    write_csv (add_sentiment_columns
                                 (header # take (length data - nat (- n)) data) k)))"
proof -
  from assms have "nat (int (length data) + n) = length data - nat (- n)" by arith
  with assms have l: "limit_rows (header # data) n = header # take (length data - nat (- n)) data"
    by (simp add: slice_to_def)
  have m: "written (main int_py w a) =
              Some (output_path a, write_csv (add_sentiment_columns (limit_rows (header # data) n) k))"
    if "rows a = Some n" "scores a = Some k"
       "fetch_finviz_csv (response w) = Inr (header # data)" "fs_error w = None"
    using that
    by (simp add: main_def prompt_if_needed_def Let_def
        del: limit_rows.simps add_sentiment_columns.simps)
  show ?thesis
    using l m prompt_if_needed_rows_flag [of a n int_py inp out n' k' inp' out']
      prompt_if_needed_no_flag [of b int_py inp out n' k' inp' out']
      prompt_if_needed_flags [of a n k int_py inp out]
    by (simp del: limit_rows.simps add_sentiment_columns.simps)
qed

theorem negative_rows_flag_witness:
  "(-1 :: int) < 0
   \<and> limit_rows [[''h''], [''a''], [''b'']] (-1) = [[''h''], [''a'']]
   \<and> prompt_if_needed (\<lambda>s. if s = ''3'' then Some 3 else None)
        \<lparr>rows = Some (-1), scores = Some 1, finviz_url = ''u'', output_path = ''out.csv''\<rparr> [] []
        = (Inr (-1, 1), [], [])
   \<and> prompt_if_needed (\<lambda>s. if s = ''3'' then Some 3 else None)
        \<lparr>rows = None, scores = Some 1, finviz_url = ''u'', output_path = ''out.csv''\<rparr> [''-1'', ''3''] []
        = (Inr (3, 1), [],
           [''How many headlines should be included? '', ''Please enter a positive integer.'',
            ''How many headlines should be included? ''])
   \<and> (0 :: int) < 3
   \<and> written (main (\<lambda>s. if s = ''3'' then Some 3 else None)
        \<lparr>stdin = [], response = Inr [CHR ''h'', LF, CHR ''a'', LF, CHR ''b''], fs_error = None\<rparr>
        \<lparr>rows = Some (-1), scores = Some 1, finviz_url = ''u'', output_path = ''out.csv''\<rparr>)
       = Some (''out.csv'',
               write_csv [[''h'', ''sentiment_1'', ''sentiment_1_reason''], [''a'', [], []]])"
proof -
  let ?a = "\<lparr>rows = Some (-1), scores = Some 1, finviz_url = ''u'', output_path = ''out.csv''\<rparr>"
  let ?b = "\<lparr>rows = None, scores = Some 1, finviz_url = ''u'', output_path = ''out.csv''\<rparr>"
  let ?w = "\<lparr>stdin = [], response = Inr [CHR ''h'', LF, CHR ''a'', LF, CHR ''b''], fs_error = None\<rparr>"
  let ?int = "\<lambda>s. if s = ''3'' then Some (3::int) else None"
  have neg: "(-1 :: int) < 0" by simp
  have pb: "prompt_if_needed ?int ?b [''-1'', ''3''] []
        = (Inr (3, 1), [],
           [''How many headlines should be included? '', ''Please enter a positive integer.'',
            ''How many headlines should be included? ''])"
    by (simp add: prompt_if_needed_def)
  have f: "fetch_finviz_csv (response ?w) = Inr [[''h''], [''a''], [''b'']]"
    by (simp add: fetch_three_lines)
  have w: "add_sentiment_columns [[''h''], [''a'']] 1
             = [[''h'', ''sentiment_1'', ''sentiment_1_reason''], [''a'', [], []]]"
    by (simp add: range_py_def upto.simps str_int_def str_nat.simps digit_char_def)
  from negative_rows_flag [OF neg, of "[''h'']" "[[''a''], [''b'']]" ?a ?int "[]" "[]" "-1" 1 "[]" "[]" 1
         ?b ?w]
    negative_rows_flag [OF neg, of "[''h'']" "[[''a''], [''b'']]" ?a ?int "[''-1'', ''3'']" "[]" 3 1 "[]"
         "[''How many headlines should be included? '', ''Please enter a positive integer.'',
            ''How many headlines should be included? '']" 1 ?b ?w]
    pb f w
  show ?thesis by (simp del: limit_rows.simps add_sentiment_columns.simps)
qed

section \<open>What the transformations change in the store\<close>

lemma those_eq_Some: "those xs = Some ys \<longleftrightarrow> xs = map Some ys"
proof (induction xs arbitrary: ys)
  case Nil
  then show ?case by auto
next
  case (Cons x xs)
  then show ?case by (cases x; cases ys) (auto split: option.splits)
qed

lemma read_cells_eq: "map read_cell vs = map Some r \<longleftrightarrow> vs = map Str r"
proof (induction vs arbitrary: r)
  case Nil
  then show ?case by auto
next
  case (Cons v vs)
  then show ?case by (cases v; cases r) auto
qed

lemma read_row_Some:
  "read_row h v = Some r \<longleftrightarrow> (\<exists>a. v = Ref a \<and> a < length h \<and> h ! a = map Str r)"
  by (cases v) (auto simp add: read_row_def those_eq_Some read_cells_eq)

lemma read_table_Some:
  "read_table h tbl = Some T \<longleftrightarrow> tbl < length h \<and> map (read_row h) (h ! tbl) = map Some T"
  by (auto simp add: read_table_def those_eq_Some)

lemma length_append_at [simp]: "length (append_at h a v) = length h"
  by (simp add: append_at_def)

lemma take_append_at: "n \<le> a \<Longrightarrow> take n (append_at h a v) = take n h"
  by (simp add: append_at_def)

lemma nth_append_at: "b \<noteq> a \<Longrightarrow> append_at h a v ! b = h ! b"
  by (simp add: append_at_def)

lemma append_at_twice:
  "a < length h \<Longrightarrow> append_at (append_at h a x) a y = h[a := h ! a @ [x, y]]"
  by (simp add: append_at_def)

lemma append_names_st_eq:
  "a < length h \<Longrightarrow>
     append_names_st ks a h = h[a := h ! a @ map Str (append_names ks [])]"
proof (induction ks arbitrary: h)
  case Nil
  then show ?case by simp
next
  case (Cons i ks)
  have "append_names (i # ks) [] =
          [''sentiment_'' @ str_int i, ''sentiment_'' @ str_int i @ ''_reason''] @ append_names ks []"
    by (simp add: append_names_eq)
  then show ?case
    using Cons.prems Cons.IH [of "h[a := h ! a @ [Str (''sentiment_'' @ str_int i),
                                   Str (''sentiment_'' @ str_int i @ ''_reason'')]]"]
    by (simp add: append_at_twice del: append_names.simps)
qed

lemma append_blanks_st_eq:
  "a < length h \<Longrightarrow>
     append_blanks_st ks a h = h[a := h ! a @ replicate (2 * length ks) (Str [])]"
proof (induction ks arbitrary: h)
  case Nil
  then show ?case by simp
next
  case (Cons i ks)
  show ?case
    using Cons.prems Cons.IH [of "h[a := h ! a @ [Str [], Str []]]"]
    by (simp add: append_at_twice replicate_append_same)
qed

lemma append_names_from_empty: "append_names ks acc = acc @ append_names ks []"
  by (simp add: append_names_eq)

lemma limit_rows_st_frame:
  "limit_rows_st h tbl n = Some (res, h') \<Longrightarrow> take (length h) h' = h"
  by (auto simp add: alloc_def Let_def split: if_splits list.splits)

lemma augment_rows_st_frame:
  "augment_rows_st vs s aug h = Some h' \<Longrightarrow> n \<le> aug \<Longrightarrow> n \<le> length h \<Longrightarrow>
     take n h' = take n h"
proof (induction vs s aug h arbitrary: h' rule: augment_rows_st.induct)
  case (1 num_scores augmented h)
  then show ?case by simp
next
  case (2 uu rest num_scores augmented h)
  then show ?case by simp
next
  case (3 r rest num_scores augmented h)
  from "3.prems"(1) have r: "r < length h" by (simp split: if_splits)
  let ?h1 = "h @ [h ! r]"
  let ?h2 = "append_blanks_st (range_py 0 num_scores) (length h) ?h1"
  let ?h3 = "append_at ?h2 augmented (Ref (length h))"
  have h2: "?h2 = ?h1[length h := ?h1 ! length h @ replicate (2 * length (range_py 0 num_scores)) (Str [])]"
    by (rule append_blanks_st_eq) simp
  from "3.prems"(1) r have run: "augment_rows_st rest num_scores augmented ?h3 = Some h'"
    by (simp add: alloc_def)
  have len: "length ?h3 = Suc (length h)" by (simp add: h2)
  have "take n h' = take n ?h3"
    using "3.IH" [of "(length h, ?h1)" "length h" ?h1 ?h2 h'] r run "3.prems"(2,3) len
    by (simp add: alloc_def)
  also have "\<dots> = take n ?h2" using "3.prems"(2) by (simp add: take_append_at)
  also have "\<dots> = take n h" using "3.prems"(3) by (simp add: h2)
  finally show ?case .
qed

lemma add_sentiment_columns_st_frame:
  "add_sentiment_columns_st h tbl s = Some (res, h') \<Longrightarrow> take (length h) h' = h"
proof -
  assume run: "add_sentiment_columns_st h tbl s = Some (res, h')"
  show ?thesis
  proof (cases "h ! tbl")
    case Nil
    with run show ?thesis by (simp split: if_splits)
  next
    case (Cons v rest)
    with run obtain header where v: "v = Ref header" and hd: "header < length h" and tbl: "tbl < length h"
      by (cases v) (auto split: if_splits)
    let ?h1 = "h @ [h ! header]"
    let ?h2 = "append_names_st (range_py 1 (s + 1)) (length h) ?h1"
    let ?h4 = "?h2 @ [[Ref (length h)]] @ [rest]"
    have h2: "?h2 = ?h1[length h := ?h1 ! length h @ map Str (append_names (range_py 1 (s + 1)) [])]"
      by (rule append_names_st_eq) simp
    have len2: "length ?h2 = Suc (length h)" by (simp add: h2)
    from run Cons v hd tbl len2
    have aug: "augment_rows_st rest s (Suc (length h)) ?h4 = Some h'"
      by (simp add: alloc_def Let_def nth_append split: option.splits)
    have "take (length h) h' = take (length h) ?h4"
      using aug by (rule augment_rows_st_frame) (simp_all add: len2)
    also have "\<dots> = h" by (simp add: h2 len2)
    finally show ?thesis .
  qed
qed

lemma read_row_extend:
  assumes "read_row h v = Some r" and "take (length h) h' = h"
  shows "read_row h' v = Some r"
proof -
  from assms(1) obtain a where a: "v = Ref a" "a < length h" "h ! a = map Str r"
    by (auto simp add: read_row_Some)
  from assms(2) have len: "length h \<le> length h'"
    by (metis length_take min.cobounded1)
  from assms(2) a(2) have "h' ! a = h ! a" by (metis nth_take)
  with a len show ?thesis by (auto simp add: read_row_Some)
qed

lemma read_rows_extend:
  assumes "map (read_row h) vs = map Some rs" and "take (length h) h' = h"
  shows "map (read_row h') vs = map Some rs"
  using assms(1)
proof (induction vs arbitrary: rs)
  case Nil
  then show ?case by simp
next
  case (Cons v vs)
  then obtain r rs' where rs: "rs = r # rs'" by (cases rs) auto
  with Cons.prems have "read_row h v = Some r" and "map (read_row h) vs = map Some rs'" by simp_all
  then show ?case using Cons.IH [of rs'] read_row_extend [OF _ assms(2)] rs by simp
qed

lemma slice_to_rows:
  assumes "map f vs = map Some rs"
  shows "map f (slice_to vs n) = map Some (slice_to rs n)"
proof -
  from assms have "length vs = length rs" by (metis length_map)
  with assms show ?thesis by (simp add: slice_to_def take_map [symmetric])
qed

lemma limit_rows_st_refines:
  assumes "read_table h tbl = Some T"
  shows "\<exists>res h'. limit_rows_st h tbl n = Some (res, h') \<and> take (length h) h' = h
           \<and> read_table h' res = Some (limit_rows T n)
           \<and> read_table h' tbl = Some T
           \<and> (if T = [] then res = tbl else length h \<le> res)"
proof -
  from assms have tbl: "tbl < length h" and rows: "map (read_row h) (h ! tbl) = map Some T"
    by (simp_all add: read_table_Some)
  show ?thesis
  proof (cases "h ! tbl")
    case Nil
    with rows have "T = []" by simp
    with Nil tbl assms show ?thesis by simp
  next
    case (Cons header rest)
    with rows obtain hrow drows where T: "T = hrow # drows"
      and hrow: "read_row h header = Some hrow"
      and drows: "map (read_row h) rest = map Some drows"
      by (cases T) auto
    let ?h' = "h @ [rest, slice_to rest n, [header], header # slice_to rest n]"
    have run: "limit_rows_st h tbl n = Some (length h + 3, ?h')"
      using tbl Cons by (simp add: alloc_def nth_append)
    have frame: "take (length h) ?h' = h" by simp
    have "map (read_row h) (header # slice_to rest n) = map Some (hrow # slice_to drows n)"
      using hrow slice_to_rows [OF drows, of n] by simp
    then have "map (read_row ?h') (header # slice_to rest n) = map Some (hrow # slice_to drows n)"
      using frame by (rule read_rows_extend)
    then have res: "read_table ?h' (length h + 3) = Some (limit_rows T n)"
      using T by (simp add: read_table_Some nth_append)
    have "map (read_row ?h') (h ! tbl) = map Some T"
      using rows frame by (rule read_rows_extend)
    then have "read_table ?h' tbl = Some T"
      using tbl by (simp add: read_table_Some nth_append)
    with run frame res T show ?thesis by auto
  qed
qed

lemma augment_rows_st_refines:
  assumes "map (read_row h0) vs = map Some rs"
    and "take (length h0) h = h0" and "length h0 \<le> aug" and "aug < length h"
  shows "\<exists>h' new. augment_rows_st vs s aug h = Some h'
           \<and> length h \<le> length h'
           \<and> h' ! aug = h ! aug @ new
           \<and> map (read_row h') new = map Some (map (\<lambda>r. r @ replicate (2 * nat s) []) rs)
           \<and> (\<forall>a < length h. a \<noteq> aug \<longrightarrow> h' ! a = h ! a)"
  using assms
proof (induction vs arbitrary: h rs)
  case Nil
  then show ?case by simp
next
  case (Cons v vs)
  from Cons.prems(1) obtain row rs' where rs: "rs = row # rs'"
    and v: "read_row h0 v = Some row" and vs: "map (read_row h0) vs = map Some rs'"
    by (cases rs) auto
  from v obtain r where r: "v = Ref r" "r < length h0" "h0 ! r = map Str row"
    by (auto simp add: read_row_Some)
  from Cons.prems(2) have len0: "length h0 \<le> length h" by (metis length_take min.cobounded1)
  from Cons.prems(2) r(2) have hr: "h ! r = map Str row" using r(3) by (metis nth_take)
  let ?wide = "row @ replicate (2 * nat s) []"
  let ?h2 = "h @ [map Str ?wide]"
  let ?h3 = "append_at ?h2 aug (Ref (length h))"
  have blanks: "append_blanks_st (range_py 0 s) (length h) (h @ [h ! r]) = ?h2"
    by (simp add: append_blanks_st_eq length_range_py hr)
  have step: "augment_rows_st (v # vs) s aug h = augment_rows_st vs s aug ?h3"
    using r len0 by (simp add: alloc_def blanks del: append_blanks_st.simps)
  have p2: "take (length h0) ?h3 = h0"
    using Cons.prems(2,3) len0 by (simp add: take_append_at)
  have p4: "aug < length ?h3" using Cons.prems(4) by simp
  obtain h' new where run: "augment_rows_st vs s aug ?h3 = Some h'"
    and len': "length ?h3 \<le> length h'"
    and aug': "h' ! aug = ?h3 ! aug @ new"
    and new: "map (read_row h') new = map Some (map (\<lambda>r. r @ replicate (2 * nat s) []) rs')"
    and others: "\<forall>a < length ?h3. a \<noteq> aug \<longrightarrow> h' ! a = ?h3 ! a"
    using Cons.IH [OF vs p2 Cons.prems(3) p4] by blast
  have h3aug: "?h3 ! aug = h ! aug @ [Ref (length h)]"
    using Cons.prems(4) by (simp add: append_at_def nth_append)
  have "h' ! length h = ?h3 ! length h"
    using others Cons.prems(4) by simp
  also have "\<dots> = map Str ?wide"
    using Cons.prems(4) by (simp add: append_at_def)
  finally have "read_row h' (Ref (length h)) = Some ?wide"
    using len' by (simp add: read_row_Some)
  with new have new': "map (read_row h') (Ref (length h) # new)
                         = map Some (map (\<lambda>r. r @ replicate (2 * nat s) []) rs)"
    by (simp add: rs)
  have keep: "\<forall>a < length h. a \<noteq> aug \<longrightarrow> h' ! a = h ! a"
  proof (intro allI impI)
    fix a assume a: "a < length h" "a \<noteq> aug"
    then have "h' ! a = ?h3 ! a" using others by simp
    also have "\<dots> = h ! a" using a by (simp add: append_at_def nth_append)
    finally show "h' ! a = h ! a" .
  qed
  from len' have "length h \<le> length h'" by simp
  with step run aug' h3aug new' keep show ?case
    by (intro exI [of _ h'] exI [of _ "Ref (length h) # new"]) simp
qed

lemma add_sentiment_columns_st_refines:
  assumes "read_table h tbl = Some T"
  shows "\<exists>res h'. add_sentiment_columns_st h tbl s = Some (res, h') \<and> take (length h) h' = h
           \<and> read_table h' res = Some (add_sentiment_columns T s)
           \<and> read_table h' tbl = Some T
           \<and> (if T = [] then res = tbl else length h \<le> res)"
proof -
  from assms have tbl: "tbl < length h" and rows: "map (read_row h) (h ! tbl) = map Some T"
    by (simp_all add: read_table_Some)
  show ?thesis
  proof (cases "h ! tbl")
    case Nil
    with rows have "T = []" by simp
    with Nil tbl assms show ?thesis by simp
  next
    case (Cons v rest)
    with rows obtain hrow drows where T: "T = hrow # drows"
      and hrow: "read_row h v = Some hrow"
      and drows: "map (read_row h) rest = map Some drows"
      by (cases T) auto
    from hrow obtain header where v: "v = Ref header" and hd: "header < length h"
      and hcells: "h ! header = map Str hrow"
      by (auto simp add: read_row_Some)
    let ?names = "append_names (range_py 1 (s + 1)) hrow"
    let ?h2 = "h @ [map Str ?names]"
    let ?aug = "Suc (length h)"
    let ?h4 = "?h2 @ [[Ref (length h)]] @ [rest]"
    have h2: "append_names_st (range_py 1 (s + 1)) (length h) (h @ [h ! header]) = ?h2"
      using append_names_from_empty [of "range_py 1 (s + 1)" hrow]
      by (simp add: append_names_st_eq hcells)
    have p2: "take (length h) ?h4 = h" by simp
    have p4: "?aug < length ?h4" by simp
    obtain h' new where run: "augment_rows_st rest s ?aug ?h4 = Some h'"
      and len': "length ?h4 \<le> length h'"
      and aug': "h' ! ?aug = ?h4 ! ?aug @ new"
      and new: "map (read_row h') new = map Some (map (\<lambda>r. r @ replicate (2 * nat s) []) drows)"
      and others: "\<forall>a < length ?h4. a \<noteq> ?aug \<longrightarrow> h' ! a = ?h4 ! a"
      using augment_rows_st_refines [OF drows p2 _ p4, of s] by auto
    have whole: "add_sentiment_columns_st h tbl s = Some (?aug, h')"
      using tbl Cons v hd run
      by (simp add: alloc_def Let_def h2 nth_append del: append_names_st.simps)
    have frame: "take (length h) h' = h"
      using add_sentiment_columns_st_frame [OF whole] .
    have "h' ! length h = ?h4 ! length h" using others by simp
    then have "h' ! length h = map Str ?names" by simp
    then have hdr: "read_row h' (Ref (length h)) = Some ?names"
      using len' by (simp add: read_row_Some)
    have "h' ! ?aug = Ref (length h) # new"
      using aug' by (simp add: nth_append)
    then have res: "read_table h' ?aug = Some (add_sentiment_columns T s)"
      using hdr new len' by (simp add: read_table_Some T augment_rows_eq)
    have "map (read_row h') (h ! tbl) = map Some T"
      using rows frame by (rule read_rows_extend)
    moreover have "h' ! tbl = h ! tbl" using frame tbl by (metis nth_take)
    moreover have "tbl < length h'" using tbl len' by simp
    ultimately have "read_table h' tbl = Some T" by (simp add: read_table_Some)
    with whole frame res T show ?thesis by auto
  qed
qed

text \<open>
  C10. Neither call changes an object that existed before it: the store after the call
  begins with the store before it, whatever the store held. On a store where the input
  reads as a table \<open>T\<close>, each call succeeds, its result reads as the value of the pure
  function on \<open>T\<close>, the input still reads as \<open>T\<close>, and the result is a new object unless
  \<open>T\<close> is empty (then the input itself is returned).
\<close>

theorem input_not_mutated:
  "(limit_rows_st h tbl n = Some (res, h') \<longrightarrow> take (length h) h' = h)
   \<and> (add_sentiment_columns_st h tbl s = Some (res, h') \<longrightarrow> take (length h) h' = h)
   \<and> (read_table h tbl = Some T \<longrightarrow>
        (\<exists>res h'. limit_rows_st h tbl n = Some (res, h') \<and> take (length h) h' = h
           \<and> read_table h' res = Some (limit_rows T n) \<and> read_table h' tbl = Some T
           \<and> (if T = [] then res = tbl else length h \<le> res))
        \<and> (\<exists>res h'. add_sentiment_columns_st h tbl s = Some (res, h') \<and> take (length h) h' = h
           \<and> read_table h' res = Some (add_sentiment_columns T s) \<and> read_table h' tbl = Some T
           \<and> (if T = [] then res = tbl else length h \<le> res)))"
  using limit_rows_st_frame [of h tbl n res h'] add_sentiment_columns_st_frame [of h tbl s res h']
    limit_rows_st_refines [of h tbl T n] add_sentiment_columns_st_refines [of h tbl T s]
  by blast

theorem input_not_mutated_witness:
  "limit_rows_st [[Str ''h''], [Str ''a''], [Str ''b''], [Ref 0, Ref 1, Ref 2]] 3 1
     = Some (7, [[Str ''h''], [Str ''a''], [Str ''b''], [Ref 0, Ref 1, Ref 2],
                 [Ref 1, Ref 2], [Ref 1], [Ref 0], [Ref 0, Ref 1]])
   \<and> add_sentiment_columns_st [[Str ''h''], [Str ''a''], [Str ''b''], [Ref 0, Ref 1, Ref 2]] 3 1
     = Some (5, [[Str ''h''], [Str ''a''], [Str ''b''], [Ref 0, Ref 1, Ref 2],
                 [Str ''h'', Str ''sentiment_1'', Str ''sentiment_1_reason''],
                 [Ref 4, Ref 7, Ref 8], [Ref 1, Ref 2],
                 [Str ''a'', Str [], Str []], [Str ''b'', Str [], Str []]])
   \<and> take 4 [[Str ''h''], [Str ''a''], [Str ''b''], [Ref 0, Ref 1, Ref 2],
               [Ref 1, Ref 2], [Ref 1], [Ref 0], [Ref 0, Ref 1]]
       = [[Str ''h''], [Str ''a''], [Str ''b''], [Ref 0, Ref 1, Ref 2]]
   \<and> take 4 [[Str ''h''], [Str ''a''], [Str ''b''], [Ref 0, Ref 1, Ref 2],
               [Str ''h'', Str ''sentiment_1'', Str ''sentiment_1_reason''],
               [Ref 4, Ref 7, Ref 8], [Ref 1, Ref 2],
               [Str ''a'', Str [], Str []], [Str ''b'', Str [], Str []]]
       = [[Str ''h''], [Str ''a''], [Str ''b''], [Ref 0, Ref 1, Ref 2]]
   \<and> read_table [[Str ''h''], [Str ''a''], [Str ''b''], [Ref 0, Ref 1, Ref 2]] 3
       = Some [[''h''], [''a''], [''b'']]
   \<and> (\<exists>res h'. limit_rows_st [[Str ''h''], [Str ''a''], [Str ''b''], [Ref 0, Ref 1, Ref 2]] 3 1
                  = Some (res, h')
        \<and> read_table h' res = Some [[''h''], [''a'']]
        \<and> read_table h' 3 = Some [[''h''], [''a''], [''b'']])
   \<and> (\<exists>res h'. add_sentiment_columns_st [[Str ''h''], [Str ''a''], [Str ''b''], [Ref 0, Ref 1, Ref 2]] 3 1
                  = Some (res, h')
        \<and> read_table h' res =
            Some [[''h'', ''sentiment_1'', ''sentiment_1_reason''], [''a'', [], []], [''b'', [], []]]
        \<and> read_table h' 3 = Some [[''h''], [''a''], [''b'']])"
proof -
  let ?h = "[[Str ''h''], [Str ''a''], [Str ''b''], [Ref 0, Ref 1, Ref 2]]"
  let ?h1 = "[[Str ''h''], [Str ''a''], [Str ''b''], [Ref 0, Ref 1, Ref 2],
              [Ref 1, Ref 2], [Ref 1], [Ref 0], [Ref 0, Ref 1]]"
  let ?h2 = "[[Str ''h''], [Str ''a''], [Str ''b''], [Ref 0, Ref 1, Ref 2],
              [Str ''h'', Str ''sentiment_1'', Str ''sentiment_1_reason''],
              [Ref 4, Ref 7, Ref 8], [Ref 1, Ref 2],
              [Str ''a'', Str [], Str []], [Str ''b'', Str [], Str []]]"
  let ?T = "[[''h''], [''a''], [''b'']]"
  have run1: "limit_rows_st ?h 3 1 = Some (7, ?h1)"
    by (simp add: alloc_def slice_to_def)
  have names: "range_py 1 2 = [1]" "range_py 0 1 = [0]" "str_int 1 = ''1''"
    by (simp_all add: range_py_def upto.simps str_int_def str_nat.simps digit_char_def)
  have run2: "add_sentiment_columns_st ?h 3 1 = Some (5, ?h2)"
    by (simp add: alloc_def append_at_def names Let_def)
  have rd: "read_table ?h 3 = Some ?T"
    by (simp add: read_table_def read_row_def numeral_eq_Suc)
  have l: "limit_rows ?T 1 = [[''h''], [''a'']]" by (simp add: slice_to_def)
  have w: "add_sentiment_columns ?T 1
             = [[''h'', ''sentiment_1'', ''sentiment_1_reason''], [''a'', [], []], [''b'', [], []]]"
    by (simp add: names)
  have len: "length ?h = 4" by simp
  from input_not_mutated [of ?h 3 1 7 ?h1 1 ?T] run1
  have f1: "take 4 ?h1 = ?h" unfolding len by blast
  from input_not_mutated [of ?h 3 1 5 ?h2 1 ?T] run2
  have f2: "take 4 ?h2 = ?h" unfolding len by blast
  from input_not_mutated [of ?h 3 1 7 ?h1 1 ?T] rd
  have r: "(\<exists>res h'. limit_rows_st ?h 3 1 = Some (res, h')
        \<and> read_table h' res = Some [[''h''], [''a'']]
        \<and> read_table h' 3 = Some ?T)
   \<and> (\<exists>res h'. add_sentiment_columns_st ?h 3 1 = Some (res, h')
        \<and> read_table h' res =
            Some [[''h'', ''sentiment_1'', ''sentiment_1_reason''], [''a'', [], []], [''b'', [], []]]
        \<and> read_table h' 3 = Some ?T)"
    unfolding l w by blast
  from run1 run2 f1 f2 rd r show ?thesis by blast
qed

end
